theory Spec2Isabelle
  imports Main
begin

section \<open>Text primitives of the Python runtime\<close>

text \<open>
  Python strings are sequences of code points. A \<^typ>\<open>char\<close> of HOL is one of the 256
  values 0..255, read here as the code point of the same number (the Latin-1 range), so
  the model covers every text made of code points below 256. In that range
  \<^verbatim>\<open>str.isspace\<close>, \<^verbatim>\<open>str.strip\<close> and the \<^verbatim>\<open>\s\<close> of the \<^verbatim>\<open>re\<close> module
  agree on the white space characters 9..13, 28..32, 133 and 160, and under
  \<^verbatim>\<open>re.IGNORECASE\<close> an ASCII letter of a pattern matches only its own two cases.
\<close>

definition code :: "char \<Rightarrow> nat" where
  "code c = of_char c"

definition is_space :: "char \<Rightarrow> bool" where
  "is_space c = ((9 \<le> code c \<and> code c \<le> 13) \<or> (28 \<le> code c \<and> code c \<le> 32)
                 \<or> code c = 133 \<or> code c = 160)"

definition is_upper :: "char \<Rightarrow> bool" where
  "is_upper c = (65 \<le> code c \<and> code c \<le> 90)"

definition is_lower :: "char \<Rightarrow> bool" where
  "is_lower c = (97 \<le> code c \<and> code c \<le> 122)"

text \<open>The character class \<^verbatim>\<open>[a-zA-Z]\<close>.\<close>

definition is_letter :: "char \<Rightarrow> bool" where
  "is_letter c = (is_upper c \<or> is_lower c)"

definition lower_char :: "char \<Rightarrow> char" where
  "lower_char c = (if is_upper c then char_of (code c + 32) else c)"

definition upper_char :: "char \<Rightarrow> char" where
  "upper_char c = (if is_lower c then char_of (code c - 32) else c)"

text \<open>\<^verbatim>\<open>str.strip()\<close>: white space removed at both ends.\<close>

definition strip :: "string \<Rightarrow> string" where
  "strip s = rev (dropWhile is_space (rev (dropWhile is_space s)))"

text \<open>
  \<^verbatim>\<open>str.capitalize()\<close> on a run of ASCII letters (the only argument it receives here):
  the first character in upper case, the others in lower case.
\<close>

fun capitalize :: "string \<Rightarrow> string" where
  "capitalize [] = []"
| "capitalize (c # cs) = upper_char c # map lower_char cs"

section \<open>Name detection (\<^verbatim>\<open>detect_user_name\<close> of both \<^verbatim>\<open>app/main.py\<close>)\<close>

text \<open>
  The three patterns have one shape, a literal followed by \<^verbatim>\<open>\s+([a-zA-Z]+)\<close>; a pattern
  is represented by its literal. \<open>match_literal\<close> consumes the literal at the head of the
  text, letters compared without case, every other character (the blanks, the
  apostrophe) exactly; it returns the rest of the text.
\<close>

fun match_literal :: "string \<Rightarrow> string \<Rightarrow> string option" where
  "match_literal [] t = Some t"
| "match_literal (p # ps) [] = None"
| "match_literal (p # ps) (c # cs) =
     (if lower_char p = lower_char c then match_literal ps cs else None)"

text \<open>
  A match anchored at the head of the text. \<^verbatim>\<open>\s+\<close> is greedy and takes the whole run
  of white space (giving some of it back never helps, since a white space character is
  no letter); the group \<^verbatim>\<open>([a-zA-Z]+)\<close> is greedy and takes the whole run of letters
  that follows. The result is the text of group 1.
\<close>

definition match_here :: "string \<Rightarrow> string \<Rightarrow> string option" where
  "match_here lit t =
     (case match_literal lit t of
        None \<Rightarrow> None
      | Some r \<Rightarrow>
          (let name = takeWhile is_letter (dropWhile is_space r)
           in if takeWhile is_space r \<noteq> [] \<and> name \<noteq> [] then Some name else None))"

text \<open>\<^verbatim>\<open>re.search\<close>: the match at the leftmost position of the text that has one.\<close>

fun re_search :: "string \<Rightarrow> string \<Rightarrow> string option" where
  "re_search lit [] = match_here lit []"
| "re_search lit (c # cs) =
     (case match_here lit (c # cs) of
        Some g \<Rightarrow> Some g
      | None \<Rightarrow> re_search lit cs)"

definition patterns :: "string list" where
  "patterns = [''my name is'', ''i am'', ''i'm'']"

text \<open>
  The \<^verbatim>\<open>for\<close> loop of \<^verbatim>\<open>detect_user_name\<close>. In the source the statement
  \<^verbatim>\<open>return None\<close> stands inside the loop body, after the \<^verbatim>\<open>if match:\<close>, so the body
  returns on its first pass whether or not the pattern matched, and the remaining
  patterns are never reached. A loop over no pattern falls off the end of the function,
  which is \<^verbatim>\<open>None\<close> as well.
\<close>

fun detect_loop :: "string list \<Rightarrow> string \<Rightarrow> string option" where
  "detect_loop [] text = None"
| "detect_loop (pattern # rest) text =
     (case re_search pattern text of
        Some g \<Rightarrow> Some (capitalize g)
      | None \<Rightarrow> None)"

definition detect_user_name :: "string \<Rightarrow> string option" where
  "detect_user_name text = detect_loop patterns text"

text \<open>
  The detection as the specification words it, for comparison with the code: the
  patterns are tried in order and the first one that matches gives the name.
\<close>

fun detect_user_name_spec_loop :: "string list \<Rightarrow> string \<Rightarrow> string option" where
  "detect_user_name_spec_loop [] text = None"
| "detect_user_name_spec_loop (pattern # rest) text =
     (case re_search pattern text of
        Some g \<Rightarrow> Some (capitalize g)
      | None \<Rightarrow> detect_user_name_spec_loop rest text)"

definition detect_user_name_spec :: "string \<Rightarrow> string option" where
  "detect_user_name_spec text = detect_user_name_spec_loop patterns text"

section \<open>Values shared by the two variants\<close>

text \<open>
  The repository holds two variants of the backend, \<^verbatim>\<open>choice-bot-backend\<close> and its
  revision \<^verbatim>\<open>voice-bot-backend\<close>. Their functions are modelled side by side; a
  definition that belongs to one variant carries the suffix \<open>_choice\<close> or \<open>_voice\<close>.

  A call into a library either returns a value or raises.
\<close>

datatype 'a outcome = Returns 'a | Raises

text \<open>
  A value of a JSON message: a string, another scalar (number, boolean, null) or a
  nested value (array, object). The two last carry the text that Python's \<^verbatim>\<open>str()\<close>
  gives for them, which is all an f-string needs.
\<close>

datatype jvalue = JStr string | JAtom string | JNested string

fun py_str :: "jvalue \<Rightarrow> string" where
  "py_str (JStr s) = s"
| "py_str (JAtom s) = s"
| "py_str (JNested s) = s"

definition py_none :: jvalue where
  "py_none = JAtom ''None''"

definition newline :: string where
  "newline = [CHR 0x0A]"

text \<open>\<^verbatim>\<open>sep.join(parts)\<close>.\<close>

fun join :: "string \<Rightarrow> string list \<Rightarrow> string" where
  "join sep [] = []"
| "join sep [x] = x"
| "join sep (x # y # ys) = x @ sep @ join sep (y # ys)"

section \<open>The knowledge store (\<^verbatim>\<open>core/vector_store.py\<close>)\<close>

text \<open>
  Chroma is a collaborator. It is modelled by what the code relies on: a database is a
  set of collections addressed by name, each holding the chunks committed to it. A
  document and a chunk are represented by their page content.
\<close>

type_synonym chroma = "string \<rightharpoonup> string list"

definition collection_name :: "string \<Rightarrow> string" where
  "collection_name client_id = ''client_'' @ client_id"

text \<open>
  What ingestion takes from its surroundings: the documents that the loaders read from
  the files of a directory (a file with an unsupported extension or a loader that
  raises contributes nothing), the text splitter, and whether the commit to Chroma
  raises. A commit that raises is taken to store nothing.
\<close>

record ingest_env =
  load_directory :: "string \<Rightarrow> string list"
  split_documents :: "string list \<Rightarrow> string list"
  commit_raises :: bool

text \<open>\<^verbatim>\<open>Chroma.from_documents\<close>: the chunks are added to the named collection, which is
  created when it does not exist.\<close>

definition from_documents :: "chroma \<Rightarrow> string \<Rightarrow> string list \<Rightarrow> chroma" where
  "from_documents db name splits =
     db(name \<mapsto> (case db name of None \<Rightarrow> splits | Some old \<Rightarrow> old @ splits))"

definition load_and_embed_documents ::
  "ingest_env \<Rightarrow> chroma \<Rightarrow> string \<Rightarrow> string \<Rightarrow> bool \<times> chroma" where
  "load_and_embed_documents env db client_id source_directory =
     (let documents = load_directory env source_directory
      in if documents = [] then (False, db)
         else
           (let splits = split_documents env documents;
                name = collection_name client_id
            in if commit_raises env then (False, db)
               else (True, from_documents db name splits)))"

text \<open>
  A retriever is a handle on one collection with its number \<open>k\<close> of passages.
  \<^verbatim>\<open>get_vector_retriever\<close> returns \<^verbatim>\<open>None\<close> when opening the collection raises;
  \<open>opens\<close> says for which collection names it does not.
\<close>

record retriever =
  collection :: string
  search_k :: nat

definition get_vector_retriever :: "(string \<Rightarrow> bool) \<Rightarrow> string \<Rightarrow> nat \<Rightarrow> retriever option" where
  "get_vector_retriever opens client_id k =
     (let name = collection_name client_id
      in if opens name then Some \<lparr>collection = name, search_k = k\<rparr> else None)"

text \<open>
  A query through a retriever: Chroma ranks the chunks of the retriever's collection
  against the query (\<open>rank\<close>, the embedding search) and returns the first \<open>k\<close>.
\<close>

definition get_relevant_documents ::
  "(string \<Rightarrow> string list \<Rightarrow> string list) \<Rightarrow> chroma \<Rightarrow> retriever \<Rightarrow> string \<Rightarrow> string list" where
  "get_relevant_documents rank db r query =
     take (search_k r) (rank query (case db (collection r) of None \<Rightarrow> [] | Some chunks \<Rightarrow> chunks))"

section \<open>Sessions\<close>

text \<open>
  The dictionary \<^verbatim>\<open>session_data\<close>. The chain stored under \<^verbatim>\<open>rag_chain\<close> is represented
  by the retriever it was built on.
\<close>

record session_data =
  user_name :: "string option"
  language :: jvalue
  chat_history :: "(string \<times> string) list"
  rag_chain :: retriever

section \<open>The conversation engine of the voice variant (\<^verbatim>\<open>core/rag_service.py\<close>)\<close>

text \<open>
  The collaborators of \<^verbatim>\<open>process_query\<close>: whether configuring the generation client
  raises, which collections open, the retrieval call and the generation call
  (\<^verbatim>\<open>generate_content_async\<close> with the extraction of the text of its response).
\<close>

record rag_backend =
  configure_raises :: bool
  collection_opens :: "string \<Rightarrow> bool"
  retrieve :: "retriever \<Rightarrow> string \<Rightarrow> string list outcome"
  generate_content :: "string \<Rightarrow> string outcome"

definition no_documents_reply :: string where
  "no_documents_reply = ''I don't have any documents for this client. Please ingest documents first.''"

definition not_found_reply :: string where
  "not_found_reply = ''I couldn't find relevant information in the uploaded documents.''"

definition error_reply :: string where
  "error_reply = ''Error: I encountered a problem while trying to generate a response.''"

text \<open>
  \<^verbatim>\<open>process_query\<close> of the voice variant. The result is the response text together with
  the prompts handed to the generation backend during the call, in order. The whole
  body stands in a \<^verbatim>\<open>try\<close> whose handler returns \<open>error_reply\<close>, so the function
  itself never raises. The parameters \<open>session_data\<close> and \<open>rag_chain\<close> are not read
  by the body.
\<close>

definition process_query_voice ::
  "rag_backend \<Rightarrow> string \<Rightarrow> session_data \<Rightarrow> string \<Rightarrow> retriever \<Rightarrow> string \<times> string list" where
  "process_query_voice be query session_data client_id chain =
     (if configure_raises be then (error_reply, [])
      else
        (case get_vector_retriever (collection_opens be) client_id 4 of
           None \<Rightarrow> (no_documents_reply, [])
         | Some r \<Rightarrow>
             (case retrieve be r query of
                Raises \<Rightarrow> (error_reply, [])
              | Returns docs \<Rightarrow>
                  if docs = [] then (not_found_reply, [])
                  else
                    (let context = join (newline @ newline) docs;
                         full_prompt = ''Context:'' @ newline @ context @ newline @ newline
                                       @ ''Question: '' @ query
                     in (case generate_content be full_prompt of
                           Raises \<Rightarrow> (error_reply, [full_prompt])
                         | Returns text_out \<Rightarrow> (text_out, [full_prompt]))))))"

section \<open>The conversation engine of the choice variant (\<^verbatim>\<open>core/rag_service.py\<close>)\<close>

text \<open>
  \<^verbatim>\<open>create_rag_chain\<close> (both variants): the retriever of the client, or the
  \<^verbatim>\<open>ValueError\<close> with its message when there is none. \<open>llm_raises\<close> stands for an
  exception of the constructors of the language model and the prompt.
\<close>

datatype chain_result = ChainBuilt retriever | ChainValueError string | ChainOtherError

definition create_rag_chain :: "(string \<Rightarrow> bool) \<Rightarrow> bool \<Rightarrow> string \<Rightarrow> chain_result" where
  "create_rag_chain opens llm_raises client_id =
     (case get_vector_retriever opens client_id 4 of
        None \<Rightarrow> ChainValueError (''Could not initialize retriever for client '' @ client_id
                                  @ ''. Has data been ingested?'')
      | Some r \<Rightarrow> if llm_raises then ChainOtherError else ChainBuilt r)"

text \<open>The dictionary \<^verbatim>\<open>chain_input\<close> that \<^verbatim>\<open>process_query\<close> hands to the chain.\<close>

record chain_input =
  question :: string
  history_in :: "(string \<times> string) list"
  user_name_in :: "string option"
  language_instruction :: string

definition language_map :: "string \<rightharpoonup> string" where
  "language_map = [''en'' \<mapsto> ''English'', ''hi'' \<mapsto> ''Hindi'']"

text \<open>
  \<^verbatim>\<open>language_map.get(session_data.get("language", "en"), "English")\<close>. The session always
  has the key. A value that is no string is not a key of the map; a nested value
  cannot be hashed, and the lookup raises.
\<close>

fun resolve_language :: "jvalue \<Rightarrow> string outcome" where
  "resolve_language (JStr lang) =
     Returns (case language_map lang of Some name \<Rightarrow> name | None \<Rightarrow> ''English'')"
| "resolve_language (JAtom v) = Returns ''English''"
| "resolve_language (JNested v) = Raises"

text \<open>
  \<^verbatim>\<open>process_query\<close> of the choice variant. The chain is an object of the LangChain
  library that the function receives as an argument; what its \<^verbatim>\<open>invoke\<close> does is the
  parameter \<open>invoke\<close>. The function has no handler: an exception of the lookup or
  of the chain leaves it.
\<close>

definition process_query_choice ::
  "(chain_input \<Rightarrow> string outcome) \<Rightarrow> string \<Rightarrow> session_data \<Rightarrow> string \<Rightarrow> string outcome" where
  "process_query_choice invoke query session_data client_id =
     (case resolve_language (language session_data) of
        Raises \<Rightarrow> Raises
      | Returns instruction \<Rightarrow>
          invoke \<lparr>question = query, history_in = chat_history session_data,
                  user_name_in = user_name session_data,
                  language_instruction = instruction\<rparr>)"

section \<open>The connection handler: what it shares\<close>

text \<open>
  What the handler puts on the socket: a JSON object, written as the list of its
  entries in the order of the source, or the close frame with its code.
\<close>

datatype outbound = SendJson "(string \<times> jvalue) list" | CloseCode nat

text \<open>
  The value that speech synthesis hands back, as far as the handler of the voice
  variant tells values apart: bytes, a string, anything else.
\<close>

datatype tts_result = TtsBytes string | TtsStr string | TtsOther

text \<open>
  The collaborators of the handler at one moment (the handshake, or one pass of the
  receive loop): the vector store and the model constructors behind
  \<^verbatim>\<open>create_rag_chain\<close>; the audio path from the \<^verbatim>\<open>audio_data\<close> entry to the
  transcription (base64 decoding, the scratch file, \<^verbatim>\<open>transcribe_audio\<close>, the removal
  of the file), which raises when one of its steps does; \<^verbatim>\<open>send_json\<close>, which is
  \<open>False\<close> when the send raises; the collaborators of \<^verbatim>\<open>process_query\<close>; speech
  synthesis; \<^verbatim>\<open>base64.b64encode\<close> and \<^verbatim>\<open>os.path.basename\<close>.
\<close>

record collaborators =
  store_opens :: "string \<Rightarrow> bool"
  llm_raises :: bool
  speech_to_text :: "jvalue \<Rightarrow> string outcome"
  send_json :: "(string \<times> jvalue) list \<Rightarrow> bool"
  rag :: rag_backend
  synthesize_voice :: "string \<Rightarrow> jvalue \<Rightarrow> tts_result outcome"
  b64encode :: "string \<Rightarrow> string"
  basename :: "string \<Rightarrow> string"

text \<open>
  What the receive loop works on: the session, the messages sent so far, the inputs
  handed to the generation backend so far, and a log of the completed turns, each with
  its query and its response. The two logs and the list of sent messages record what
  the handler did; the handler never reads them.
\<close>

record 'g loop_state =
  session :: session_data
  outbox :: "outbound list"
  gen_calls :: "'g list"
  turns :: "(string \<times> string) list"

text \<open>A statement either goes on to the next one or raises, in the state reached.\<close>

datatype 'a flow = Next 'a | Raised 'a

definition send ::
  "collaborators \<Rightarrow> (string \<times> jvalue) list \<Rightarrow> ('g, 'z) loop_state_scheme
     \<Rightarrow> ('g, 'z) loop_state_scheme flow" where
  "send env msg st =
     (if send_json env msg then Next (st\<lparr>outbox := outbox st @ [SendJson msg]\<rparr>) else Raised st)"

text \<open>The slice \<^verbatim>\<open>[-10:]\<close>: the last ten elements, or all of them when there are fewer.\<close>

definition last10 :: "'a list \<Rightarrow> 'a list" where
  "last10 xs = drop (length xs - 10) xs"

text \<open>The three statements that close a turn: two appends and the slice.\<close>

definition update_history ::
  "(string \<times> string) list \<Rightarrow> string \<Rightarrow> string \<Rightarrow> (string \<times> string) list" where
  "update_history history query_text response_text =
     last10 ((history @ [(''user'', query_text)]) @ [(''assistant'', response_text)])"

text \<open>Truth value of a name that is \<^verbatim>\<open>None\<close> or a string.\<close>

definition truthy :: "string option \<Rightarrow> bool" where
  "truthy u = (case u of None \<Rightarrow> False | Some n \<Rightarrow> n \<noteq> [])"

text \<open>
  What arrives at the handler: a JSON object, with the collaborators for the pass that
  handles it; the disconnect (\<^verbatim>\<open>WebSocketDisconnect\<close>); or a fault, which is any other
  exception of \<^verbatim>\<open>receive_json\<close> and also a payload that is no JSON object, on which
  the first access of the loop body raises.
\<close>

datatype event = Recv "string \<rightharpoonup> jvalue" collaborators | Disconnect | Fault

datatype exit = Disconnected | Crashed

text \<open>
  Where a connection stands after the events given to it: rejected at the handshake
  (no data for the client, the error sent and the socket closed with code 1008); left
  by an exception before a session existed; left by an
  exception of the greeting's send, which stands outside the \<^verbatim>\<open>try\<close> of the loop;
  in the loop, waiting for a message; closed, the loop left by a disconnect or by
  another exception.
\<close>

datatype phase = Rejected | SetupCrashed | GreetingCrashed | Active | Closed exit

record 'st endpoint_result =
  registry :: "nat \<rightharpoonup> session_data"
  phase :: phase
  state :: "'st option"
  rejection :: "outbound list"

definition new_session :: "retriever \<Rightarrow> session_data" where
  "new_session built = \<lparr>user_name = None, language = JStr ''en'', chat_history = [], rag_chain = built\<rparr>"

definition error_message :: "string \<Rightarrow> (string \<times> jvalue) list" where
  "error_message msg = [(''type'', JStr ''error''), (''message'', JStr msg)]"

definition user_message :: "string \<Rightarrow> (string \<times> jvalue) list" where
  "user_message query_text =
     [(''type'', JStr ''user_message''), (''sender'', JStr ''user''), (''text'', JStr query_text)]"

text \<open>The \<^verbatim>\<open>finally\<close> clause.\<close>

definition cleanup :: "(nat \<rightharpoonup> session_data) \<Rightarrow> nat \<Rightarrow> (nat \<rightharpoonup> session_data)" where
  "cleanup active_sessions websocket =
     (if active_sessions websocket \<noteq> None then active_sessions(websocket := None)
      else active_sessions)"

section \<open>The connection handler of the voice variant (\<^verbatim>\<open>app/main.py\<close>)\<close>

definition audio_fields :: "collaborators \<Rightarrow> tts_result outcome \<Rightarrow> jvalue \<times> jvalue" where
  "audio_fields env tts =
     (case tts of
        Raises \<Rightarrow> (JStr [], py_none)
      | Returns (TtsBytes b) \<Rightarrow> (JStr (b64encode env b), py_none)
      | Returns (TtsStr path) \<Rightarrow>
          (case path of
             [] \<Rightarrow> (JStr [], py_none)
           | c # cs \<Rightarrow>
               (JStr [],
                JStr (if c = CHR ''/'' then ''http://localhost:8000'' @ path
                      else ''http://localhost:8000/static/audio/'' @ basename env path)))
      | Returns TtsOther \<Rightarrow> (JStr [], py_none))"

definition response_voice :: "string \<Rightarrow> jvalue \<times> jvalue \<Rightarrow> (string \<times> jvalue) list" where
  "response_voice text audio =
     [(''type'', JStr ''response''), (''sender'', JStr ''bot''), (''text'', JStr text),
      (''audio_base64'', fst audio), (''audio_url'', snd audio)]"

definition greeting_voice :: string where
  "greeting_voice = ''Hello! My name is VOICE, how can I assist you today?''"

text \<open>The personalization step: detection runs only while the session has no name.\<close>

definition personalize_voice :: "session_data \<Rightarrow> string \<Rightarrow> session_data" where
  "personalize_voice s query_text =
     (if \<not> truthy (user_name s) then
        (let detected = detect_user_name query_text
         in if truthy detected then s\<lparr>user_name := detected\<rparr> else s)
      else s)"

text \<open>
  The part of the loop body after the query text is known. \<^verbatim>\<open>process_query\<close> catches
  every exception itself, so the handler's own \<^verbatim>\<open>except\<close> around the call, which
  would substitute a fixed apology, is never entered and has no branch here.
\<close>

definition turn_voice ::
  "collaborators \<Rightarrow> string \<Rightarrow> string \<Rightarrow> string loop_state \<Rightarrow> string loop_state flow" where
  "turn_voice env client_id query_text st =
     (let s1 = personalize_voice (session st) query_text;
          answer = process_query_voice (rag env) query_text s1 client_id (rag_chain s1);
          response_text = fst answer;
          audio = audio_fields env (synthesize_voice env response_text (language s1));
          st1 = st\<lparr>session := s1, gen_calls := gen_calls st @ snd answer\<rparr>
      in case send env (response_voice response_text audio) st1 of
           Raised st2 \<Rightarrow> Raised st2
         | Next st2 \<Rightarrow>
             Next (st2\<lparr>session := s1\<lparr>chat_history :=
                           update_history (chat_history s1) query_text response_text\<rparr>,
                       turns := turns st2 @ [(query_text, response_text)]\<rparr>))"

text \<open>One pass of the \<^verbatim>\<open>while True\<close> loop on a received object.\<close>

definition receive_voice ::
  "collaborators \<Rightarrow> string \<Rightarrow> (string \<rightharpoonup> jvalue) \<Rightarrow> string loop_state \<Rightarrow> string loop_state flow" where
  "receive_voice env client_id data st =
     (if data ''type'' = Some (JStr ''language_switch'') then
        (case data ''language'' of
           None \<Rightarrow> Raised st
         | Some lang \<Rightarrow>
             send env [(''type'', JStr ''status''),
                       (''message'', JStr (''Language set to '' @ py_str lang))]
               (st\<lparr>session := (session st)\<lparr>language := lang\<rparr>\<rparr>))
      else if data ''type'' = Some (JStr ''text_query'') then
        (case (case data ''text'' of None \<Rightarrow> JStr [] | Some v \<Rightarrow> v) of
           JStr text \<Rightarrow> turn_voice env client_id (strip text) st
         | JAtom v \<Rightarrow> Raised st
         | JNested v \<Rightarrow> Raised st)
      else if data ''type'' = Some (JStr ''audio_query'') then
        (case data ''audio_data'' of
           None \<Rightarrow> Raised st
         | Some audio_data \<Rightarrow>
             (case speech_to_text env audio_data of
                Raises \<Rightarrow> Raised st
              | Returns query_text \<Rightarrow>
                  (case send env (user_message query_text) st of
                     Raised st1 \<Rightarrow> Raised st1
                   | Next st1 \<Rightarrow> turn_voice env client_id query_text st1)))
      else send env (error_message ''Unsupported message type.'') st)"

text \<open>
  The loop over the events that arrive. With no event left the handler waits in
  \<^verbatim>\<open>receive_json\<close>: the loop has not been left.
\<close>

fun main_loop_voice ::
  "string \<Rightarrow> event list \<Rightarrow> string loop_state \<Rightarrow> string loop_state \<times> exit option" where
  "main_loop_voice client_id [] st = (st, None)"
| "main_loop_voice client_id (Disconnect # es) st = (st, Some Disconnected)"
| "main_loop_voice client_id (Fault # es) st = (st, Some Crashed)"
| "main_loop_voice client_id (Recv data env # es) st =
     (case receive_voice env client_id data st of
        Next st1 \<Rightarrow> main_loop_voice client_id es st1
      | Raised st1 \<Rightarrow> (st1, Some Crashed))"

text \<open>
  \<^verbatim>\<open>websocket_endpoint\<close>: the handshake with its collaborators \<open>env\<close>, then the loop
  on the events, then the \<^verbatim>\<open>finally\<close> clause when the loop is left. The session is the
  object stored in the registry, so the registry shows the session as the loop left it.
\<close>

definition websocket_endpoint_voice ::
  "(nat \<rightharpoonup> session_data) \<Rightarrow> nat \<Rightarrow> string \<Rightarrow> collaborators \<Rightarrow> event list
     \<Rightarrow> string loop_state endpoint_result" where
  "websocket_endpoint_voice active_sessions websocket client_id env events =
     (case create_rag_chain (store_opens env) (llm_raises env) client_id of
        ChainValueError e \<Rightarrow>
          (if send_json env (error_message e)
           then \<lparr>registry = active_sessions, phase = Rejected, state = None,
                 rejection = [SendJson (error_message e), CloseCode 1008]\<rparr>
           else \<lparr>registry = active_sessions, phase = SetupCrashed, state = None,
                 rejection = []\<rparr>)
      | ChainOtherError \<Rightarrow>
          \<lparr>registry = active_sessions, phase = SetupCrashed, state = None, rejection = []\<rparr>
      | ChainBuilt built \<Rightarrow>
          (let session_data = new_session built;
               registered = active_sessions(websocket \<mapsto> session_data);
               audio = audio_fields env
                         (synthesize_voice env greeting_voice (language session_data));
               st0 = \<lparr>session = session_data, outbox = [], gen_calls = [], turns = []\<rparr>
           in case send env (response_voice greeting_voice audio) st0 of
                Raised st1 \<Rightarrow>
                  \<lparr>registry = registered, phase = GreetingCrashed, state = Some st1,
                   rejection = []\<rparr>
              | Next st1 \<Rightarrow>
                  (case main_loop_voice client_id events st1 of
                     (st2, None) \<Rightarrow>
                       \<lparr>registry = registered(websocket \<mapsto> session st2), phase = Active,
                        state = Some st2, rejection = []\<rparr>
                   | (st2, Some how) \<Rightarrow>
                       \<lparr>registry = cleanup (registered(websocket \<mapsto> session st2)) websocket,
                        phase = Closed how, state = Some st2, rejection = []\<rparr>)))"

section \<open>The connection handler of the choice variant (\<^verbatim>\<open>app/main.py\<close>)\<close>

text \<open>
  In the choice variant the handshake stores the new session with the statement
  \<^verbatim>\<open>active_sessions[websocket] = session_data\<close>, and the module binds the name
  \<^verbatim>\<open>active_sessions\<close> nowhere: when \<^verbatim>\<open>create_rag_chain\<close> has returned a chain, the
  statement raises \<^verbatim>\<open>NameError\<close>. It stands in the \<^verbatim>\<open>try\<close> of the handshake, whose only
  handler is for \<^verbatim>\<open>ValueError\<close>, so the exception leaves the handler: no session is
  stored, no greeting is sent, and the receive loop that follows in the source is never
  entered, whatever events arrive. The result is where the connection stands and what
  was put on the socket.
\<close>

definition websocket_endpoint_choice ::
  "string \<Rightarrow> collaborators \<Rightarrow> event list \<Rightarrow> phase \<times> outbound list" where
  "websocket_endpoint_choice client_id env events =
     (case create_rag_chain (store_opens env) (llm_raises env) client_id of
        ChainValueError e \<Rightarrow>
          (if send_json env (error_message e)
           then (Rejected, [SendJson (error_message e), CloseCode 1008])
           else (SetupCrashed, []))
      | ChainOtherError \<Rightarrow> (SetupCrashed, [])
      | ChainBuilt built \<Rightarrow> (SetupCrashed, []))"

section \<open>Vocabulary of the results\<close>

text \<open>
  The state in which a statement left the handler, whether it went on or raised.
\<close>

fun flow_state :: "'a flow \<Rightarrow> 'a" where
  "flow_state (Next st) = st"
| "flow_state (Raised st) = st"

text \<open>
  The two history entries of a turn, and the history that a list of turns would give
  were nothing ever dropped.
\<close>

definition exchange :: "string \<times> string \<Rightarrow> (string \<times> string) list" where
  "exchange t = [(''user'', fst t), (''assistant'', snd t)]"

definition transcript :: "(string \<times> string) list \<Rightarrow> (string \<times> string) list" where
  "transcript ts = concat (map exchange ts)"

text \<open>
  The invariant that ties the session's history to the log of completed turns.
\<close>

definition history_logged :: "('g, 'z) loop_state_scheme \<Rightarrow> bool" where
  "history_logged st = (chat_history (session st) = last10 (transcript (turns st)))"

text \<open>
  Invariant of the session's name: it is unset or a non-empty string. The relation
  \<open>name_kept\<close> says that a later session has kept the name of an earlier one.
\<close>

definition name_sound :: "session_data \<Rightarrow> bool" where
  "name_sound s = (user_name s = None \<or> truthy (user_name s))"

definition name_kept :: "session_data \<Rightarrow> session_data \<Rightarrow> bool" where
  "name_kept s s' = (name_sound s' \<and> (truthy (user_name s) \<longrightarrow> user_name s' = user_name s))"

text \<open>
  The state in which the handshake of the voice variant enters the receive loop: a new
  session, the greeting sent.
\<close>

definition entry_voice :: "collaborators \<Rightarrow> retriever \<Rightarrow> string loop_state" where
  "entry_voice env built =
     \<lparr>session = new_session built,
      outbox = [SendJson (response_voice greeting_voice
                  (audio_fields env (synthesize_voice env greeting_voice (JStr ''en''))))],
      gen_calls = [], turns = []\<rparr>"

section \<open>A concrete deployment\<close>

text \<open>
  One tenant, \<^verbatim>\<open>acme\<close>, whose collection holds one passage; collaborators that all
  succeed; a generation backend with one fixed answer; a transcription that returns the
  text carried by the audio entry. In \<open>gone_env\<close> the client has gone away and every
  send raises. The closed statements below are evaluated on these values.
\<close>

definition demo_retriever :: retriever where
  "demo_retriever = \<lparr>collection = ''client_acme'', search_k = 4\<rparr>"

definition demo_session :: session_data where
  "demo_session = new_session demo_retriever"

definition demo_ingest :: ingest_env where
  "demo_ingest = \<lparr>load_directory = (\<lambda>d. [''B fact'']), split_documents = (\<lambda>ds. ds), commit_raises = False\<rparr>"

definition demo_db :: chroma where
  "demo_db = [''client_acme'' \<mapsto> [''The office is open 9 to 5.'']]"

definition demo_backend :: "string list \<Rightarrow> rag_backend" where
  "demo_backend docs = \<lparr>configure_raises = False, collection_opens = (\<lambda>name. True),
      retrieve = (\<lambda>r q. Returns docs), generate_content = (\<lambda>p. Returns ''We are open 9 to 5.'')\<rparr>"

definition demo_env :: collaborators where
  "demo_env = \<lparr>store_opens = (\<lambda>name. True), llm_raises = False,
      speech_to_text = (\<lambda>audio. Returns (py_str audio)),
      send_json = (\<lambda>msg. True),
      rag = demo_backend [''The office is open 9 to 5.''],
      synthesize_voice = (\<lambda>text lang. Returns (TtsBytes ''mp3'')),
      b64encode = (\<lambda>bytes. bytes),
      basename = (\<lambda>path. path)\<rparr>"

definition gone_env :: collaborators where
  "gone_env = demo_env\<lparr>send_json := (\<lambda>msg. False)\<rparr>"

definition text_query :: "string \<Rightarrow> event" where
  "text_query text = Recv [''type'' \<mapsto> JStr ''text_query'', ''text'' \<mapsto> JStr text] demo_env"

definition audio_query :: "string \<Rightarrow> event" where
  "audio_query heard = Recv [''type'' \<mapsto> JStr ''audio_query'', ''audio_data'' \<mapsto> JStr heard] demo_env"

definition language_switch :: "string \<Rightarrow> event" where
  "language_switch lang =
     Recv [''type'' \<mapsto> JStr ''language_switch'', ''language'' \<mapsto> JStr lang] demo_env"


definition hours :: "string \<rightharpoonup> jvalue" where
  "hours = [''type'' \<mapsto> JStr ''text_query'', ''text'' \<mapsto> JStr ''  What are your hours? '']"

definition null_text :: "string \<rightharpoonup> jvalue" where
  "null_text = [''type'' \<mapsto> JStr ''text_query'', ''text'' \<mapsto> JAtom ''None'']"

definition six_texts :: "string list" where
  "six_texts = [''one'', ''two'', ''three'', ''four'', ''five'', ''six'']"

definition six_voice :: "string loop_state endpoint_result" where
  "six_voice = websocket_endpoint_voice Map.empty 7 ''acme'' demo_env (map text_query six_texts)"

definition mixed_voice :: "string loop_state endpoint_result" where
  "mixed_voice = websocket_endpoint_voice Map.empty 7 ''acme'' demo_env
      (map text_query six_texts @ [language_switch ''hi'', audio_query ''seven''])"

definition alex_voice :: "event list \<Rightarrow> string loop_state endpoint_result" where
  "alex_voice later = websocket_endpoint_voice Map.empty 7 ''acme'' demo_env
                        ([text_query ''Hi, my name is alex''] @ later)"

definition other_session :: "nat \<rightharpoonup> session_data" where
  "other_session = [3 \<mapsto> new_session demo_retriever]"

section \<open>Lemmas on the knowledge store and the engines\<close>

lemma collection_name_inj: "inj collection_name"
  by (simp add: inj_def collection_name_def)

lemma ingest_other_collection:
  "name \<noteq> collection_name B \<Longrightarrow> snd (load_and_embed_documents env db B dir) name = db name"
  by (simp add: load_and_embed_documents_def from_documents_def Let_def)

lemma get_vector_retriever_collection:
  "get_vector_retriever opens A k = Some r \<Longrightarrow> collection r = collection_name A"
  by (auto simp: get_vector_retriever_def Let_def split: if_splits)

lemma retrieval_after_ingest:
  "A \<noteq> B \<Longrightarrow> get_vector_retriever opens A k = Some r \<Longrightarrow>
   get_relevant_documents rank (snd (load_and_embed_documents env db B dir)) r q = get_relevant_documents rank db r q"
  using get_vector_retriever_collection[of opens A k r] ingest_other_collection[of "collection_name A" B env db dir]
  by (simp add: get_relevant_documents_def collection_name_def)

lemma process_query_voice_ignores_session:
  "process_query_voice be query s client_id built = process_query_voice be query s' client_id built'"
  by (simp add: process_query_voice_def)

lemma detect_user_name_first_pattern_only:
  "detect_user_name text = map_option capitalize (re_search ''my name is'' text)"
  by (simp add: detect_user_name_def patterns_def split: option.split)

lemma language_instruction_choice:
  "language s = JStr lang \<Longrightarrow>
   process_query_choice invoke query s client_id =
     invoke \<lparr>question = query, history_in = chat_history s, user_name_in = user_name s,
             language_instruction =
               (if lang = ''en'' then ''English'' else if lang = ''hi'' then ''Hindi''
                else ''English'')\<rparr>"
  by (simp add: process_query_choice_def language_map_def)

section \<open>Lemmas on the history\<close>

lemma length_transcript: "length (transcript ts) = 2 * length ts"
  by (induction ts) (simp_all add: transcript_def exchange_def)

lemma transcript_append: "transcript (ts @ [t]) = transcript ts @ exchange t"
  by (simp add: transcript_def)

lemma drop_transcript: "drop (2 * k) (transcript ts) = transcript (drop k ts)"
proof (induction ts arbitrary: k)
  case Nil
  then show ?case by (simp add: transcript_def)
next
  case (Cons t ts)
  show ?case
  proof (cases k)
    case 0
    then show ?thesis by simp
  next
    case (Suc j)
    have "drop (2 * Suc j) (transcript (t # ts)) = drop (2 * j) (transcript ts)"
      by (simp add: transcript_def exchange_def)
    then show ?thesis using Cons.IH [of j] Suc by simp
  qed
qed

lemma last10_transcript: "last10 (transcript ts) = transcript (drop (length ts - 5) ts)"
proof -
  have "length (transcript ts) - 10 = 2 * (length ts - 5)"
    by (simp add: length_transcript)
  then show ?thesis
    by (simp add: last10_def drop_transcript del: mult_Suc_right)
qed

lemma last10_append:
  "length ys \<le> 10 \<Longrightarrow> last10 (last10 xs @ ys) = last10 (xs @ ys)"
  by (cases "length xs \<le> 10") (auto simp: last10_def add.commute)

lemma update_history_transcript:
  "update_history (last10 (transcript ts)) q r = last10 (transcript (ts @ [(q, r)]))"
  using last10_append [of "exchange (q, r)" "transcript ts"]
  by (simp add: update_history_def transcript_append exchange_def)

lemma nth_transcript:
  "i < 2 * length ts \<Longrightarrow>
   transcript ts ! i = (if even i then (''user'', fst (ts ! (i div 2)))
                        else (''assistant'', snd (ts ! (i div 2))))"
proof (induction ts arbitrary: i)
  case Nil
  then show ?case by simp
next
  case (Cons t ts)
  have unfold: "transcript (t # ts) = (''user'', fst t) # (''assistant'', snd t) # transcript ts"
    by (simp add: transcript_def exchange_def)
  show ?case
  proof (cases i)
    case 0
    then show ?thesis by (simp add: unfold)
  next
    case (Suc j)
    show ?thesis
    proof (cases j)
      case 0
      then show ?thesis using Suc by (simp add: unfold)
    next
      case (Suc k)
      have "k < 2 * length ts" using Cons.prems \<open>i = Suc j\<close> Suc by simp
      then show ?thesis using Cons.IH [of k] \<open>i = Suc j\<close> Suc by (simp add: unfold)
    qed
  qed
qed

lemma personalize_voice_history [simp]:
  "chat_history (personalize_voice s q) = chat_history s"
  by (simp add: personalize_voice_def Let_def)

lemma turn_voice_history_logged:
  "history_logged st \<Longrightarrow> history_logged (flow_state (turn_voice env cid q st))"
  by (auto simp: history_logged_def turn_voice_def send_def Let_def update_history_transcript)

lemma receive_voice_history_logged:
  "history_logged st \<Longrightarrow> history_logged (flow_state (receive_voice env cid data st))"
proof -
  assume h: "history_logged st"
  have sw: "\<And>msg lang. history_logged (flow_state (send env msg (st\<lparr>session := (session st)\<lparr>language := lang\<rparr>\<rparr>)))"
    using h by (simp add: history_logged_def send_def)
  have er: "\<And>msg. history_logged (flow_state (send env msg st))"
    using h by (simp add: history_logged_def send_def)
  have au: "\<And>msg q. history_logged (flow_state (case send env msg st of Raised st1 \<Rightarrow> Raised st1
                   | Next st1 \<Rightarrow> turn_voice env cid q st1))"
  proof -
    fix msg q
    show "history_logged (flow_state (case send env msg st of Raised st1 \<Rightarrow> Raised st1
                   | Next st1 \<Rightarrow> turn_voice env cid q st1))"
    proof (cases "send_json env msg")
      case True
      have "history_logged (st\<lparr>outbox := outbox st @ [SendJson msg]\<rparr>)"
        using h by (simp add: history_logged_def)
      then show ?thesis using True by (simp add: send_def turn_voice_history_logged)
    next
      case False
      then show ?thesis using h by (simp add: send_def)
    qed
  qed
  show ?thesis
    using h sw er au turn_voice_history_logged [OF h]
    by (simp add: receive_voice_def split: option.split jvalue.split outcome.split)
qed

lemma main_loop_voice_history_logged:
  "history_logged st \<Longrightarrow> history_logged (fst (main_loop_voice cid es st))"
proof (induction cid es st rule: main_loop_voice.induct)
  case (4 client_id data env es st)
  have "history_logged (flow_state (receive_voice env client_id data st))"
    using "4.prems" by (rule receive_voice_history_logged)
  then show ?case using "4.IH"
    by (cases "receive_voice env client_id data st") simp_all
qed simp_all

section \<open>Lemmas on the name\<close>

lemma name_kept_refl: "name_sound s \<Longrightarrow> name_kept s s"
  by (simp add: name_kept_def)

lemma name_kept_trans: "name_kept s s' \<Longrightarrow> name_kept s' s'' \<Longrightarrow> name_kept s s''"
  by (auto simp: name_kept_def)

lemma personalize_voice_name_kept:
  "name_sound s \<Longrightarrow> name_kept s (personalize_voice s q)"
  by (auto simp: name_kept_def name_sound_def personalize_voice_def Let_def)

lemma turn_voice_name:
  "user_name (session (flow_state (turn_voice env cid q st)))
     = user_name (personalize_voice (session st) q)"
  by (simp add: turn_voice_def send_def Let_def)

lemma turn_voice_name_kept:
  "name_sound (session st) \<Longrightarrow> name_kept (session st) (session (flow_state (turn_voice env cid q st)))"
  using personalize_voice_name_kept [of "session st" q] turn_voice_name [of env cid q st]
  by (simp add: name_kept_def name_sound_def)

lemma receive_voice_name_kept:
  "name_sound (session st) \<Longrightarrow>
   name_kept (session st) (session (flow_state (receive_voice env cid data st)))"
proof -
  assume h: "name_sound (session st)"
  have sw: "\<And>msg lang. name_kept (session st)
      (session (flow_state (send env msg (st\<lparr>session := (session st)\<lparr>language := lang\<rparr>\<rparr>))))"
    using h by (simp add: name_kept_def name_sound_def send_def)
  have er: "\<And>msg. name_kept (session st) (session (flow_state (send env msg st)))"
    using h by (simp add: name_kept_def name_sound_def send_def)
  have au: "\<And>msg q. name_kept (session st) (session (flow_state
       (case send env msg st of Raised st1 \<Rightarrow> Raised st1
        | Next st1 \<Rightarrow> turn_voice env cid q st1)))"
  proof -
    fix msg q
    show "name_kept (session st) (session (flow_state
       (case send env msg st of Raised st1 \<Rightarrow> Raised st1
        | Next st1 \<Rightarrow> turn_voice env cid q st1)))"
    proof (cases "send_json env msg")
      case True
      have "name_kept (session st)
              (session (flow_state (turn_voice env cid q (st\<lparr>outbox := outbox st @ [SendJson msg]\<rparr>))))"
        using turn_voice_name_kept [of "st\<lparr>outbox := outbox st @ [SendJson msg]\<rparr>" env cid q] h
        by simp
      then show ?thesis using True by (simp add: send_def)
    next
      case False
      then show ?thesis using h by (simp add: send_def name_kept_refl)
    qed
  qed
  show ?thesis
    using sw er au turn_voice_name_kept [OF h] name_kept_refl [OF h]
    by (simp add: receive_voice_def split: option.split jvalue.split outcome.split)
qed

lemma main_loop_voice_name_kept:
  "name_sound (session st) \<Longrightarrow> name_kept (session st) (session (fst (main_loop_voice cid es st)))"
proof (induction cid es st rule: main_loop_voice.induct)
  case (4 client_id data env es st)
  have k: "name_kept (session st) (session (flow_state (receive_voice env client_id data st)))"
    using "4.prems" by (rule receive_voice_name_kept)
  show ?case
  proof (cases "receive_voice env client_id data st")
    case (Next st1)
    have "name_sound (session st1)" using k Next by (simp add: name_kept_def)
    then have "name_kept (session st1) (session (fst (main_loop_voice client_id es st1)))"
      using "4.IH" Next by simp
    then show ?thesis using k Next by (auto intro: name_kept_trans)
  next
    case (Raised st1)
    then show ?thesis using k by simp
  qed
qed (simp_all add: name_kept_refl)

lemma main_loop_voice_append:
  "main_loop_voice cid (es @ later) st =
     (case main_loop_voice cid es st of
        (st1, None) \<Rightarrow> main_loop_voice cid later st1
      | (st1, Some how) \<Rightarrow> (st1, Some how))"
  by (induction cid es st rule: main_loop_voice.induct) (simp_all split: flow.split)

lemma main_loop_voice_later_name:
  assumes "name_sound (session st)"
  shows "name_kept (session (fst (main_loop_voice cid es st)))
           (session (fst (main_loop_voice cid (es @ later) st)))"
proof (cases "main_loop_voice cid es st")
  case (Pair st1 ex)
  have s1: "name_sound (session st1)"
    using main_loop_voice_name_kept [OF assms, of cid es] Pair by (simp add: name_kept_def)
  show ?thesis
  proof (cases ex)
    case None
    then show ?thesis
      using Pair main_loop_voice_name_kept [OF s1, of cid later]
      by (simp add: main_loop_voice_append)
  next
    case (Some how)
    then show ?thesis using Pair s1 by (simp add: main_loop_voice_append name_kept_refl)
  qed
qed

lemma personalize_voice_set:
  "truthy (user_name s) \<Longrightarrow> personalize_voice s q = s"
  by (simp add: personalize_voice_def)

lemma truthy_Some: "name_sound s \<Longrightarrow> user_name s = Some n \<Longrightarrow> truthy (user_name s)"
  by (simp add: name_sound_def)

section \<open>Lemmas on the endpoints\<close>

text \<open>
  The handler of the choice variant never reaches the receive loop.
\<close>

lemma websocket_endpoint_choice_not_active:
  "fst (websocket_endpoint_choice client_id env events) = Rejected \<or>
   fst (websocket_endpoint_choice client_id env events) = SetupCrashed"
  by (simp add: websocket_endpoint_choice_def split: chain_result.split)

lemma endpoint_voice_state:
  assumes "state (websocket_endpoint_voice reg ws cid env es) = Some st"
  shows "\<exists>built. (st = (entry_voice env built)\<lparr>outbox := []\<rparr> \<and>
                   (\<forall>es'. state (websocket_endpoint_voice reg ws cid env es') = Some st)) \<or>
                 (\<forall>es'. state (websocket_endpoint_voice reg ws cid env es')
                          = Some (fst (main_loop_voice cid es' (entry_voice env built))))"
proof (cases "create_rag_chain (store_opens env) (llm_raises env) cid")
  case (ChainBuilt built)
  show ?thesis
  proof (cases "send_json env (response_voice greeting_voice
                  (audio_fields env (synthesize_voice env greeting_voice (JStr ''en''))))")
    case True
    have "\<forall>es'. state (websocket_endpoint_voice reg ws cid env es')
                          = Some (fst (main_loop_voice cid es' (entry_voice env built)))"
      using ChainBuilt True
      by (simp add: websocket_endpoint_voice_def send_def Let_def new_session_def entry_voice_def
               split: prod.split option.split)
    then show ?thesis by blast
  next
    case False
    have "\<forall>es'. state (websocket_endpoint_voice reg ws cid env es')
                   = Some ((entry_voice env built)\<lparr>outbox := []\<rparr>)"
      using ChainBuilt False
      by (simp add: websocket_endpoint_voice_def send_def Let_def new_session_def entry_voice_def)
    then show ?thesis using assms by auto
  qed
next
  case (ChainValueError e)
  then show ?thesis using assms by (simp add: websocket_endpoint_voice_def split: if_splits)
next
  case ChainOtherError
  then show ?thesis using assms by (simp add: websocket_endpoint_voice_def split: if_splits)
qed

lemma entry_voice_logged: "history_logged (entry_voice env built)"
  by (simp add: history_logged_def entry_voice_def new_session_def transcript_def last10_def)

lemma endpoint_voice_history_logged:
  assumes "state (websocket_endpoint_voice reg ws cid env es) = Some st"
  shows "history_logged st"
proof -
  obtain built where
    "(st = (entry_voice env built)\<lparr>outbox := []\<rparr>) \<or>
     (\<forall>es'. state (websocket_endpoint_voice reg ws cid env es')
               = Some (fst (main_loop_voice cid es' (entry_voice env built))))"
    using endpoint_voice_state [OF assms] by blast
  then show ?thesis
  proof
    assume "st = (entry_voice env built)\<lparr>outbox := []\<rparr>"
    then show ?thesis using entry_voice_logged [of env built] by (simp add: history_logged_def)
  next
    assume "\<forall>es'. state (websocket_endpoint_voice reg ws cid env es')
               = Some (fst (main_loop_voice cid es' (entry_voice env built)))"
    then have "st = fst (main_loop_voice cid es (entry_voice env built))"
      using assms by simp
    then show ?thesis
      using main_loop_voice_history_logged [OF entry_voice_logged] by simp
  qed
qed

lemma history_logged_bound:
  assumes "history_logged st"
  shows "length (chat_history (session st)) \<le> 10 \<and>
         chat_history (session st) = transcript (drop (length (turns st) - 5) (turns st)) \<and>
         (5 < length (turns st) \<longrightarrow> length (chat_history (session st)) = 10)"
proof -
  have eq: "chat_history (session st) = transcript (drop (length (turns st) - 5) (turns st))"
    using assms by (simp add: history_logged_def last10_transcript)
  have len: "length (chat_history (session st)) = 2 * (length (turns st) - (length (turns st) - 5))"
    by (simp add: eq length_transcript)
  show ?thesis using eq len by auto
qed

lemma history_logged_shape:
  assumes "history_logged st"
  shows "even (length (chat_history (session st))) \<and>
         (\<forall>i<length (chat_history (session st)).
            fst (chat_history (session st) ! i) = (if even i then ''user'' else ''assistant''))"
proof -
  have eq: "chat_history (session st) = transcript (drop (length (turns st) - 5) (turns st))"
    using assms by (simp add: history_logged_def last10_transcript)
  show ?thesis
    by (simp add: eq length_transcript nth_transcript)
qed

lemma entry_voice_sound: "name_sound (session (entry_voice env built))"
  by (simp add: entry_voice_def new_session_def name_sound_def)

lemma endpoint_voice_first_name:
  assumes "state (websocket_endpoint_voice reg ws cid env es) = Some st"
      and "state (websocket_endpoint_voice reg ws cid env (es @ later)) = Some st'"
      and "user_name (session st) = Some name"
  shows "user_name (session st') = Some name"
proof -
  obtain built where
    "(st = (entry_voice env built)\<lparr>outbox := []\<rparr> \<and>
       (\<forall>es'. state (websocket_endpoint_voice reg ws cid env es') = Some st)) \<or>
     (\<forall>es'. state (websocket_endpoint_voice reg ws cid env es')
               = Some (fst (main_loop_voice cid es' (entry_voice env built))))"
    using endpoint_voice_state [OF assms(1)] by blast
  then show ?thesis
  proof
    assume "st = (entry_voice env built)\<lparr>outbox := []\<rparr> \<and>
       (\<forall>es'. state (websocket_endpoint_voice reg ws cid env es') = Some st)"
    then have "st' = st" using assms(2) by simp
    then show ?thesis using assms(3) by simp
  next
    assume all: "\<forall>es'. state (websocket_endpoint_voice reg ws cid env es')
               = Some (fst (main_loop_voice cid es' (entry_voice env built)))"
    have 1: "st = fst (main_loop_voice cid es (entry_voice env built))"
      using all assms(1) by simp
    have 2: "st' = fst (main_loop_voice cid (es @ later) (entry_voice env built))"
      using all assms(2) by simp
    have s: "name_sound (session st)"
      using main_loop_voice_name_kept [where st = "entry_voice env built" and cid = cid and es = es]
            entry_voice_sound [of env built] 1
      by (simp add: name_kept_def)
    have "name_kept (session st) (session st')"
      using main_loop_voice_later_name [where st = "entry_voice env built" and cid = cid and es = es
              and later = later] entry_voice_sound [of env built] 1 2
      by simp
    then show ?thesis using truthy_Some [OF s assms(3)] assms(3) by (simp add: name_kept_def)
  qed
qed

lemma cleanup_registered:
  "cleanup (reg(ws \<mapsto> s)) ws = reg(ws := None)"
  by (simp add: cleanup_def)

lemma endpoint_voice_closed:
  assumes "phase (websocket_endpoint_voice reg ws cid env es) = Closed how"
  shows "registry (websocket_endpoint_voice reg ws cid env es) = reg(ws := None)"
  using assms
  by (auto simp: websocket_endpoint_voice_def Let_def cleanup_registered
           split: chain_result.splits flow.splits prod.splits option.splits if_splits)

lemma endpoint_voice_active:
  assumes "phase (websocket_endpoint_voice reg ws cid env es) = Active"
  shows "registry (websocket_endpoint_voice reg ws cid env es) ws \<noteq> None"
  using assms
  by (auto simp: websocket_endpoint_voice_def Let_def
           split: chain_result.splits flow.splits prod.splits option.splits if_splits)

lemma removed_restores: "reg ws = None \<Longrightarrow> reg(ws := None) = reg"
  by (rule ext) simp

lemma receive_voice_language_switch:
  "data ''type'' = Some (JStr ''language_switch'') \<Longrightarrow>
   chat_history (session (flow_state (receive_voice env cid data st))) = chat_history (session st)"
  by (simp add: receive_voice_def send_def split: option.split)

lemma endpoint_voice_handshake:
  "state (websocket_endpoint_voice reg ws cid env []) = Some st \<Longrightarrow> chat_history (session st) = []"
  by (auto simp: websocket_endpoint_voice_def send_def Let_def new_session_def
           split: chain_result.splits if_splits)

text \<open>
  Once the receive loop has been entered and left, by a disconnect or by another
  exception, the \<^verbatim>\<open>finally\<close> clause has removed the entry of the connection.
\<close>

lemma cleanup_after_loop_voice:
  assumes "active_sessions websocket = None"
      and "phase (websocket_endpoint_voice active_sessions websocket client_id env events) = Closed how"
  shows "registry (websocket_endpoint_voice active_sessions websocket client_id env events)
           = active_sessions"
  using endpoint_voice_closed [OF assms(2)] removed_restores [of active_sessions websocket] assms(1)
  by simp

text \<open>
  The greeting is sent after the session is stored and before the \<^verbatim>\<open>try\<close> of the
  loop: when that send raises, the exception leaves the handler and the entry stays.
\<close>

lemma greeting_send_raises_voice:
  assumes "create_rag_chain (store_opens env) (llm_raises env) client_id = ChainBuilt built"
      and "\<not> send_json env (response_voice greeting_voice
               (audio_fields env (synthesize_voice env greeting_voice (JStr ''en''))))"
  shows "phase (websocket_endpoint_voice active_sessions websocket client_id env events)
           = GreetingCrashed \<and>
         registry (websocket_endpoint_voice active_sessions websocket client_id env events)
           = active_sessions(websocket \<mapsto> new_session built)"
  using assms
  by (simp add: websocket_endpoint_voice_def Let_def send_def new_session_def)

section \<open>The claims\<close>

subsection \<open>C1: tenant isolation\<close>

text \<open>
  Claim C1. For two distinct tenant identifiers A and B, the retriever that
  \<^verbatim>\<open>get_vector_retriever\<close> returns for A is bound to the collection derived from A;
  the derivation of the collection name from the tenant identifier is injective, so
  this collection is not the one of B; and a query for A returns the same passages
  whether or not documents have been ingested under B, both at the retriever and
  through \<^verbatim>\<open>process_query\<close> for A. Chroma is taken to keep its collections apart by
  name and to search only the collection a retriever is bound to.
\<close>

theorem tenant_isolation:
  assumes "A \<noteq> B" and "get_vector_retriever opens A k = Some r"
  shows "inj collection_name \<and> collection r = collection_name A \<and>
         collection r \<noteq> collection_name B \<and>
         get_relevant_documents rank (snd (load_and_embed_documents env db B dir)) r q
           = get_relevant_documents rank db r q \<and>
         process_query_voice
           (be\<lparr>retrieve := \<lambda>r q. Returns (get_relevant_documents rank
                                  (snd (load_and_embed_documents env db B dir)) r q)\<rparr>)
           q s A built
         = process_query_voice
           (be\<lparr>retrieve := \<lambda>r q. Returns (get_relevant_documents rank db r q)\<rparr>) q s A built"
proof -
  have c: "collection r = collection_name A"
    using assms(2) by (rule get_vector_retriever_collection)
  have d: "collection_name A \<noteq> collection_name B"
    using assms(1) by (simp add: collection_name_def)
  have e: "get_relevant_documents rank (snd (load_and_embed_documents env db B dir)) r q
           = get_relevant_documents rank db r q"
    using assms by (rule retrieval_after_ingest)
  have f: "\<And>r'. get_vector_retriever (collection_opens be) A 4 = Some r' \<Longrightarrow>
        get_relevant_documents rank (snd (load_and_embed_documents env db B dir)) r' q
           = get_relevant_documents rank db r' q"
    using assms(1) by (rule retrieval_after_ingest)
  have g: "process_query_voice
           (be\<lparr>retrieve := \<lambda>r q. Returns (get_relevant_documents rank
                                  (snd (load_and_embed_documents env db B dir)) r q)\<rparr>)
           q s A built
         = process_query_voice
           (be\<lparr>retrieve := \<lambda>r q. Returns (get_relevant_documents rank db r q)\<rparr>) q s A built"
    using f by (simp add: process_query_voice_def split: option.split)
  show ?thesis using c d e g collection_name_inj by simp
qed

theorem tenant_isolation_witness:
  "''acme'' \<noteq> ''bravo'' \<and>
   get_vector_retriever (\<lambda>name. True) ''acme'' 4 = Some demo_retriever \<and>
   collection demo_retriever \<noteq> collection_name ''bravo'' \<and>
   get_relevant_documents (\<lambda>q chunks. chunks)
      (snd (load_and_embed_documents demo_ingest demo_db ''bravo'' ''dir'')) demo_retriever ''hours?''
     = [''The office is open 9 to 5.'']"
  using tenant_isolation [of "''acme''" "''bravo''" "\<lambda>name. True" 4 demo_retriever
          "\<lambda>q chunks. chunks" demo_ingest demo_db "''dir''" "''hours?''"]
  by (simp add: get_vector_retriever_def demo_retriever_def collection_name_def
        get_relevant_documents_def demo_db_def)

subsection \<open>C2: name detection\<close>

text \<open>
  Claim C2. Name detection is claimed to try the three patterns "my name is X",
  "i am X", "i'm X" in order and to return the captured token, capitalized, of the
  first pattern that matches, so that a text matching only "i am X" yields X.
  The code returns after the first pattern: on the text "I am Alex" it gives no name,
  where the detection worded by the specification gives "Alex".
\<close>

theorem detect_user_name_i_am_alex:
  "detect_user_name ''I am Alex'' = None \<and>
   detect_user_name_spec ''I am Alex'' = Some ''Alex''"
  by code_simp

subsection \<open>C3: a text query is one turn\<close>

text \<open>
  Claim C3, as amended. For every \<^verbatim>\<open>text_query\<close> message received in the loop whose
  text entry is a string, or is absent and then read as the empty string: the text,
  trimmed of surrounding white space, is the query; the engine is invoked on it, so
  that the prompts of this call join those handed to the generation backend; and when
  the response message can be sent, the message with the response text and the audio
  entries is sent, and the entry of the user with the query and the entry of the
  assistant with the response are appended to the history, which is then cut to its
  last ten entries.
\<close>

theorem text_query_turn_voice:
  assumes "data ''type'' = Some (JStr ''text_query'')"
      and "data ''text'' = Some (JStr raw) \<or> (data ''text'' = None \<and> raw = [])"
      and "answer = process_query_voice (rag env) (strip raw)
                      (personalize_voice (session st) (strip raw)) client_id
                      (rag_chain (session st))"
      and "audio = audio_fields env (synthesize_voice env (fst answer) (language (session st)))"
  shows "gen_calls (flow_state (receive_voice env client_id data st))
           = gen_calls st @ snd answer \<and>
         (send_json env (response_voice (fst answer) audio) \<longrightarrow>
            receive_voice env client_id data st =
              Next (st\<lparr>session := (personalize_voice (session st) (strip raw))
                         \<lparr>chat_history := last10 (chat_history (session st)
                              @ [(''user'', strip raw), (''assistant'', fst answer)])\<rparr>,
                       outbox := outbox st @ [SendJson (response_voice (fst answer) audio)],
                       gen_calls := gen_calls st @ snd answer,
                       turns := turns st @ [(strip raw, fst answer)]\<rparr>))"
proof -
  have n: "rag_chain (personalize_voice (session st) (strip raw)) = rag_chain (session st)"
    "language (personalize_voice (session st) (strip raw)) = language (session st)"
    by (simp_all add: personalize_voice_def Let_def)
  have t: "receive_voice env client_id data st = turn_voice env client_id (strip raw) st"
    using assms(1,2) by (auto simp: receive_voice_def)
  show ?thesis
    using assms(3,4) n
    by (simp add: t turn_voice_def send_def Let_def update_history_def)
qed

theorem text_query_turn_voice_witness:
  "hours ''type'' = Some (JStr ''text_query'') \<and>
   hours ''text'' = Some (JStr ''  What are your hours? '') \<and>
   process_query_voice (rag demo_env) (strip ''  What are your hours? '')
      (personalize_voice (session (entry_voice demo_env demo_retriever))
         (strip ''  What are your hours? '')) ''acme''
      (rag_chain (session (entry_voice demo_env demo_retriever)))
     = (''We are open 9 to 5.'',
        [''Context:\<newline>The office is open 9 to 5.\<newline>\<newline>Question: What are your hours?'']) \<and>
   send_json demo_env (response_voice ''We are open 9 to 5.'' (JStr ''mp3'', py_none)) \<and>
   receive_voice demo_env ''acme'' hours (entry_voice demo_env demo_retriever) =
     Next ((entry_voice demo_env demo_retriever)
             \<lparr>session := (personalize_voice (session (entry_voice demo_env demo_retriever))
                            ''What are your hours?'')
                  \<lparr>chat_history := last10 (chat_history (session (entry_voice demo_env demo_retriever))
                       @ [(''user'', ''What are your hours?''),
                          (''assistant'', ''We are open 9 to 5.'')])\<rparr>,
              outbox := outbox (entry_voice demo_env demo_retriever)
                 @ [SendJson (response_voice ''We are open 9 to 5.'' (JStr ''mp3'', py_none))],
              gen_calls := gen_calls (entry_voice demo_env demo_retriever)
                 @ [''Context:\<newline>The office is open 9 to 5.\<newline>\<newline>Question: What are your hours?''],
              turns := turns (entry_voice demo_env demo_retriever)
                 @ [(''What are your hours?'', ''We are open 9 to 5.'')]\<rparr>)"
proof -
  have a: "hours ''type'' = Some (JStr ''text_query'')"
    and b: "hours ''text'' = Some (JStr ''  What are your hours? '')"
    by (simp_all add: hours_def)
  have s: "strip ''  What are your hours? '' = ''What are your hours?''"
    by code_simp
  have c: "process_query_voice (rag demo_env) (strip ''  What are your hours? '')
      (personalize_voice (session (entry_voice demo_env demo_retriever))
         (strip ''  What are your hours? '')) ''acme''
      (rag_chain (session (entry_voice demo_env demo_retriever)))
     = (''We are open 9 to 5.'',
        [''Context:\<newline>The office is open 9 to 5.\<newline>\<newline>Question: What are your hours?''])"
    by code_simp
  have d: "audio_fields demo_env (synthesize_voice demo_env ''We are open 9 to 5.''
             (language (session (entry_voice demo_env demo_retriever)))) = (JStr ''mp3'', py_none)"
    by (simp add: audio_fields_def demo_env_def)
  have e: "send_json demo_env (response_voice ''We are open 9 to 5.'' (JStr ''mp3'', py_none))"
    by (simp add: demo_env_def)
  show ?thesis
    using a b c d e s
      text_query_turn_voice [where data = hours and raw = "''  What are your hours? ''"
        and env = demo_env and st = "entry_voice demo_env demo_retriever"
        and client_id = "''acme''", OF a _ refl refl]
    by simp
qed

text \<open>
  The claim as stated does not hold for every \<^verbatim>\<open>text_query\<close>. A message whose text
  entry is \<^verbatim>\<open>null\<close> has nothing to trim: the loop body raises, the connection is
  closed, the engine has not been invoked and the history is empty. And when the client
  has gone away the send of the response raises: the engine has been invoked, but no
  response is sent, no entry is appended and the connection is closed.
\<close>

theorem text_query_without_turn:
  "phase (websocket_endpoint_voice Map.empty 7 ''acme'' demo_env [Recv null_text demo_env])
     = Closed Crashed \<and>
   map_option gen_calls
     (state (websocket_endpoint_voice Map.empty 7 ''acme'' demo_env [Recv null_text demo_env]))
     = Some [] \<and>
   map_option (\<lambda>st. chat_history (session st))
     (state (websocket_endpoint_voice Map.empty 7 ''acme'' demo_env [Recv null_text demo_env]))
     = Some [] \<and>
   phase (websocket_endpoint_voice Map.empty 7 ''acme'' demo_env [Recv hours gone_env])
     = Closed Crashed \<and>
   map_option (\<lambda>st. length (gen_calls st))
     (state (websocket_endpoint_voice Map.empty 7 ''acme'' demo_env [Recv hours gone_env]))
     = Some 1 \<and>
   map_option (\<lambda>st. length (outbox st))
     (state (websocket_endpoint_voice Map.empty 7 ''acme'' demo_env [Recv hours gone_env]))
     = Some 1 \<and>
   map_option (\<lambda>st. chat_history (session st))
     (state (websocket_endpoint_voice Map.empty 7 ''acme'' demo_env [Recv hours gone_env]))
     = Some []"
  by code_simp

subsection \<open>C4: no generation on an empty retrieval\<close>

text \<open>
  Claim C4. When \<^verbatim>\<open>process_query\<close> reaches the retrieval (the configuration did not
  raise and the client has a retriever) and the retriever returns no passage, the
  function returns the fixed reply \<open>not_found_reply\<close> and hands nothing to the
  generation backend.
\<close>

theorem empty_retrieval_short_circuit_voice:
  "\<not> configure_raises be \<Longrightarrow>
   get_vector_retriever (collection_opens be) client_id 4 = Some r \<Longrightarrow>
   retrieve be r query = Returns [] \<Longrightarrow>
   process_query_voice be query s client_id built = (not_found_reply, [])"
  by (simp add: process_query_voice_def)

theorem empty_retrieval_short_circuit_voice_witness:
  "\<not> configure_raises (demo_backend []) \<and>
   get_vector_retriever (collection_opens (demo_backend [])) ''acme'' 4 = Some demo_retriever \<and>
   retrieve (demo_backend []) demo_retriever ''hours?'' = Returns [] \<and>
   process_query_voice (demo_backend []) ''hours?'' demo_session ''acme'' demo_retriever
     = (not_found_reply, [])"
  using empty_retrieval_short_circuit_voice [of "demo_backend []" "''acme''" demo_retriever
          "''hours?''" demo_session demo_retriever]
  by (simp add: demo_backend_def get_vector_retriever_def collection_name_def demo_retriever_def)

subsection \<open>C5: the history bound\<close>

text \<open>
  Claim C5. In every state that a connection reaches, the history has at most ten
  entries and consists of the entries of the five most recent completed turns (of all
  of them while there are at most five), in the order of the turns; with more than five
  completed turns it has exactly ten entries.
\<close>

theorem history_bound:
  "state (websocket_endpoint_voice reg ws client_id env events) = Some st \<Longrightarrow>
      length (chat_history (session st)) \<le> 10 \<and>
      chat_history (session st) = transcript (drop (length (turns st) - 5) (turns st)) \<and>
      (5 < length (turns st) \<longrightarrow> length (chat_history (session st)) = 10)"
  using history_logged_bound [of st]
        endpoint_voice_history_logged [of reg ws client_id env events st]
  by blast

theorem history_bound_witness:
  "state six_voice = Some (the (state six_voice)) \<and>
   5 < length (turns (the (state six_voice))) \<and>
   length (chat_history (session (the (state six_voice)))) = 10 \<and>
   chat_history (session (the (state six_voice))) =
     transcript (drop (length (turns (the (state six_voice))) - 5) (turns (the (state six_voice)))) \<and>
   map snd (chat_history (session (the (state six_voice)))) =
     [''two'', ''We are open 9 to 5.'', ''three'', ''We are open 9 to 5.'',
      ''four'', ''We are open 9 to 5.'', ''five'', ''We are open 9 to 5.'',
      ''six'', ''We are open 9 to 5.'']"
proof -
  have a: "state six_voice = Some (the (state six_voice))"
    by code_simp
  have b: "5 < length (turns (the (state six_voice)))"
    by code_simp
  have e: "map snd (chat_history (session (the (state six_voice)))) =
     [''two'', ''We are open 9 to 5.'', ''three'', ''We are open 9 to 5.'',
      ''four'', ''We are open 9 to 5.'', ''five'', ''We are open 9 to 5.'',
      ''six'', ''We are open 9 to 5.'']"
    by code_simp
  have v: "length (chat_history (session (the (state six_voice)))) = 10 \<and>
           chat_history (session (the (state six_voice))) =
             transcript (drop (length (turns (the (state six_voice))) - 5)
                           (turns (the (state six_voice))))"
    using a b history_bound [where reg = Map.empty and ws = 7 and client_id = "''acme''"
                and env = demo_env and events = "map text_query six_texts"
                and st = "the (state six_voice)"]
    unfolding six_voice_def by blast
  show ?thesis using a b e v by blast
qed

subsection \<open>C6: cleanup of the registry\<close>

text \<open>
  Claim C6. The entry of every connection whose session was stored in the registry is
  claimed to be removed when the connection ends. The tenant \<^verbatim>\<open>acme\<close> has data, the
  connection 7 is not in the registry, and the client has gone away when the greeting
  is sent: the session is stored, the send raises before the \<^verbatim>\<open>try\<close> whose
  \<^verbatim>\<open>finally\<close> clause removes entries, the handler is left, and the entry of the
  connection stays in the registry.
\<close>

theorem greeting_send_leaks_session:
  "other_session 7 = None \<and>
   phase (websocket_endpoint_voice other_session 7 ''acme'' gone_env [Disconnect])
     = GreetingCrashed \<and>
   registry (websocket_endpoint_voice other_session 7 ''acme'' gone_env [Disconnect]) 7
     = Some (new_session demo_retriever) \<and>
   registry (websocket_endpoint_voice other_session 7 ''acme'' gone_env [Disconnect])
     \<noteq> other_session"
proof -
  have a: "other_session 7 = None"
    by (simp add: other_session_def)
  have c: "create_rag_chain (store_opens gone_env) (llm_raises gone_env) ''acme''
             = ChainBuilt demo_retriever"
    by (simp add: create_rag_chain_def get_vector_retriever_def collection_name_def
          gone_env_def demo_env_def demo_retriever_def)
  have s: "\<not> send_json gone_env (response_voice greeting_voice
               (audio_fields gone_env (synthesize_voice gone_env greeting_voice (JStr ''en''))))"
    by (simp add: gone_env_def)
  have l: "phase (websocket_endpoint_voice other_session 7 ''acme'' gone_env [Disconnect])
             = GreetingCrashed \<and>
           registry (websocket_endpoint_voice other_session 7 ''acme'' gone_env [Disconnect])
             = other_session(7 \<mapsto> new_session demo_retriever)"
    using c s by (rule greeting_send_raises_voice)
  have d: "other_session(7 \<mapsto> new_session demo_retriever) \<noteq> other_session"
    using a by (metis fun_upd_same option.distinct(1))
  show ?thesis using a l d by simp
qed

subsection \<open>C7: the first name wins\<close>

text \<open>
  Claim C7. When a connection has reached a state in which the session has a name,
  every state it reaches after any further events has the same name; and the
  personalization step leaves a session that has a name as it is, whatever the query
  says.
\<close>

theorem first_write_wins:
  "(state (websocket_endpoint_voice reg ws client_id env events) = Some st \<and>
    state (websocket_endpoint_voice reg ws client_id env (events @ later)) = Some st' \<and>
    user_name (session st) = Some name
      \<longrightarrow> user_name (session st') = Some name) \<and>
   (user_name s = Some name'' \<and> name'' \<noteq> [] \<longrightarrow> personalize_voice s query_text = s)"
  using endpoint_voice_first_name [of reg ws client_id env events st later st' name]
        personalize_voice_set [of s query_text]
  by (auto simp: truthy_def)

theorem first_write_wins_witness:
  "state (alex_voice []) = Some (the (state (alex_voice []))) \<and>
   state (alex_voice [text_query ''My name is Sam''])
     = Some (the (state (alex_voice [text_query ''My name is Sam'']))) \<and>
   user_name (session (the (state (alex_voice [])))) = Some ''Alex'' \<and>
   user_name (session (the (state (alex_voice [text_query ''My name is Sam''])))) = Some ''Alex''"
proof -
  have a: "state (alex_voice []) = Some (the (state (alex_voice [])))"
    by code_simp
  have b: "state (alex_voice [text_query ''My name is Sam''])
           = Some (the (state (alex_voice [text_query ''My name is Sam''])))"
    by code_simp
  have c: "user_name (session (the (state (alex_voice [])))) = Some ''Alex''"
    by code_simp
  have v: "user_name (session (the (state (alex_voice [text_query ''My name is Sam''])))) = Some ''Alex''"
    using a b c
      first_write_wins [where reg = Map.empty and ws = 7 and client_id = "''acme''"
        and env = demo_env and events = "[text_query ''Hi, my name is alex'']"
        and st = "the (state (alex_voice []))" and later = "[text_query ''My name is Sam'']"
        and st' = "the (state (alex_voice [text_query ''My name is Sam'']))"
        and name = "''Alex''"]
    unfolding alex_voice_def by simp
  show ?thesis using a b c v by blast
qed

subsection \<open>C8: a message of an unsupported type\<close>




subsection \<open>C9: the language instruction\<close>

text \<open>
  Claim C9. The language instruction handed to the generation backend is claimed to
  be resolved from the language of the session: "Hindi" for \<^verbatim>\<open>hi\<close>, "English" for
  \<^verbatim>\<open>en\<close> and for any other code. \<^verbatim>\<open>process_query\<close> of the voice variant does not read
  the session: the one prompt it hands to the generation backend for a session in
  \<^verbatim>\<open>hi\<close> is the prompt for a session in \<^verbatim>\<open>en\<close>, the context and the question
  with no instruction on the language, while the mapping tells the two codes apart.
\<close>

theorem language_instruction_voice_absent:
  "snd (process_query_voice (demo_backend [''P'']) ''hours?''
          (demo_session\<lparr>language := JStr ''hi''\<rparr>) ''acme'' demo_retriever)
     = [''Context:\<newline>P\<newline>\<newline>Question: hours?''] \<and>
   snd (process_query_voice (demo_backend [''P'']) ''hours?''
          (demo_session\<lparr>language := JStr ''en''\<rparr>) ''acme'' demo_retriever)
     = [''Context:\<newline>P\<newline>\<newline>Question: hours?''] \<and>
   resolve_language (JStr ''hi'') = Returns ''Hindi'' \<and>
   resolve_language (JStr ''en'') = Returns ''English''"
  by (simp add: process_query_voice_def demo_backend_def get_vector_retriever_def newline_def language_map_def)

subsection \<open>C10: the shape of the history\<close>

text \<open>
  Claim C10. In every state that a connection reaches, the history has even length,
  its entries at even positions have the role \<^verbatim>\<open>user\<close> and its entries at odd
  positions the role \<^verbatim>\<open>assistant\<close>; a \<^verbatim>\<open>language_switch\<close> message leaves the history
  as it is; and the handshake leaves it empty.
\<close>

theorem history_shape:
  "(state (websocket_endpoint_voice reg ws client_id env events) = Some st \<longrightarrow>
      even (length (chat_history (session st))) \<and>
      (\<forall>i<length (chat_history (session st)).
          fst (chat_history (session st) ! i) = (if even i then ''user'' else ''assistant''))) \<and>
   (data ''type'' = Some (JStr ''language_switch'') \<longrightarrow>
      chat_history (session (flow_state (receive_voice env' client_id data sv)))
        = chat_history (session sv)) \<and>
   (state (websocket_endpoint_voice reg ws client_id env []) = Some st0 \<longrightarrow>
      chat_history (session st0) = [])"
  using history_logged_shape [of st]
        endpoint_voice_history_logged [of reg ws client_id env events st]
        receive_voice_language_switch [of data env' client_id sv]
        endpoint_voice_handshake [of reg ws client_id env st0]
  by blast

theorem history_shape_witness:
  "state mixed_voice = Some (the (state mixed_voice)) \<and>
   length (chat_history (session (the (state mixed_voice)))) = 10 \<and>
   even (length (chat_history (session (the (state mixed_voice))))) \<and>
   fst (chat_history (session (the (state mixed_voice))) ! 8) = ''user'' \<and>
   fst (chat_history (session (the (state mixed_voice))) ! 9) = ''assistant''"
proof -
  have a: "state mixed_voice = Some (the (state mixed_voice))"
    by code_simp
  have c: "length (chat_history (session (the (state mixed_voice)))) = 10"
    by code_simp
  have e: "even (length (chat_history (session (the (state mixed_voice))))) \<and>
           (\<forall>i<length (chat_history (session (the (state mixed_voice)))).
              fst (chat_history (session (the (state mixed_voice))) ! i)
                = (if even i then ''user'' else ''assistant''))"
    using a history_shape [where reg = Map.empty and ws = 7 and client_id = "''acme''"
            and env = demo_env
            and events = "map text_query six_texts @ [language_switch ''hi'', audio_query ''seven'']"
            and st = "the (state mixed_voice)"]
    unfolding mixed_voice_def by blast
  have g: "fst (chat_history (session (the (state mixed_voice))) ! 8) = ''user''"
    using e c by simp
  have h: "fst (chat_history (session (the (state mixed_voice))) ! 9) = ''assistant''"
    using e c by simp
  show ?thesis using a c e g h by blast
qed

end
